theory Spec2Isabelle
  imports Main "HOL-Library.Word"
begin

section \<open>Error codes and the log\<close>

text \<open>
  \<^verbatim>\<open>ss::error_code\<close> is the error code of the I/O library. The sources use it in three
  ways: the default-constructed value (no error), the comparison with
  \<^verbatim>\<open>asio::error::eof\<close>, and \<^verbatim>\<open>failed()\<close> / \<^verbatim>\<open>message()\<close> of any value.
\<close>

datatype error_code = success | eof | other_error string

fun failed :: "error_code \<Rightarrow> bool" where
  "failed success = False"
| "failed eof = True"
| "failed (other_error m) = True"

fun message :: "error_code \<Rightarrow> string" where
  "message success = ''Success''"
| "message eof = ''End of file''"
| "message (other_error m) = m"

text \<open>
  A log statement \<^verbatim>\<open>LOG_X(format, args...)\<close> is an entry holding the level, the format
  string and the arguments. An argument written \<^verbatim>\<open>n / 1024.\<close> in the sources is kept
  as the byte count \<open>n\<close>.
\<close>

datatype log_level = DEBUG | INFO | WARNING | ERROR

datatype log_arg = ArgStr string | ArgInt int | ArgBytes_div_1024 nat

datatype log_entry = LOG log_level string "log_arg list"

section \<open>The request handler (RequestHandler.cpp)\<close>

text \<open>
  Modelled from the spec: \<^verbatim>\<open>SUCCESS_CODE\<close> and \<^verbatim>\<open>FAILURE_CODE\<close> are constants of a
  header that is not among the sources; the spec gives the status code of a response
  two values, success and failure.
\<close>

datatype code = SUCCESS_CODE | FAILURE_CODE

text \<open>
  The fields of \<^verbatim>\<open>RequestObject\<close> that \<^verbatim>\<open>handle\<close> reads (the field \<^verbatim>\<open>id\<close> is
  \<open>id'\<close> here).
\<close>

record RequestObject =
  msg_num :: int
  id' :: int
  buf_type :: string
  buf_name :: string
  buf_body :: string
  additional_info :: "(string \<times> string) list"

text \<open>
  \<^verbatim>\<open>ResponseObject{a, b, c, d, e, f, g}\<close>: the seven members in the order in which
  \<^verbatim>\<open>handle\<close> initialises them. Going by the spec's response envelope they are the
  sequence number, the identifier, the declared type, the name, the status code, the
  status message and the result list.
\<close>

datatype 't ResponseObject =
  ResponseObject (sequence_number: int) (response_id: int) (declared_type: string)
    (response_name: string) (return_code: code) (error_message: string)
    (result_list: "'t list")

text \<open>
  A tokenizer gets the buffer name, the buffer body, the additional information and the
  token list to fill (passed by reference), and returns the status text; here it returns
  the filled list as well.
\<close>

type_synonym 't Tokenizer =
  "string \<Rightarrow> string \<Rightarrow> (string \<times> string) list \<Rightarrow> 't list \<Rightarrow> string \<times> 't list"

text \<open>
  What \<^verbatim>\<open>handle\<close> calls and the sources do not hold:
  \<^item> the constructor \<^verbatim>\<open>RequestObject{request}\<close>, which throws a \<^verbatim>\<open>std::exception\<close>
    (\<open>Inl\<close> of its \<^verbatim>\<open>what()\<close>) or yields the object;
  \<^item> \<^verbatim>\<open>TokenizerFactory::getTokenizer\<close>, \<open>None\<close> for the null pointer;
  \<^item> \<^verbatim>\<open>ResponseObject::dump\<close>, which writes the serialised object into the output
    string it is given.
\<close>

record 't collaborators =
  RequestObject_ctor :: "string \<Rightarrow> string + RequestObject"
  getTokenizer :: "string \<Rightarrow> 't Tokenizer option"
  dump :: "'t ResponseObject \<Rightarrow> string \<Rightarrow> string"

text \<open>
  \<^verbatim>\<open>RequestHandler::handle(request, response)\<close>: the returned error code and the new
  contents of \<^verbatim>\<open>response\<close>, with the log entries written on the way.
\<close>

definition handle ::
  "'t collaborators \<Rightarrow> string \<Rightarrow> string \<Rightarrow> (error_code \<times> string) \<times> log_entry list" where
  "handle c request response =
     (let returnCode = success in
      case RequestObject_ctor c request of
        Inl what \<Rightarrow>
          ((returnCode,
            dump c (ResponseObject 0 0 '''' '''' FAILURE_CODE what []) response),
           [LOG DEBUG ''catch exception: %1%'' [ArgStr what]])
      | Inr requestObject \<Rightarrow>
          (case getTokenizer c (buf_type requestObject) of
             None \<Rightarrow>
               ((returnCode,
                 dump c (ResponseObject (msg_num requestObject) (id' requestObject)
                           (buf_type requestObject) (buf_name requestObject) FAILURE_CODE
                           (''couldn't get tokenizer for buffer type: '' @
                              buf_type requestObject)
                           [])
                   response),
                [LOG WARNING ''couldn't get tokenizer for buffer type: %1%''
                   [ArgStr (buf_type requestObject)]])
           | Some tokenizer \<Rightarrow>
               (case tokenizer (buf_name requestObject) (buf_body requestObject)
                       (additional_info requestObject) [] of
                  (status, tokens) \<Rightarrow>
                    ((returnCode,
                      dump c (ResponseObject (msg_num requestObject) (id' requestObject)
                                (buf_type requestObject) (buf_name requestObject)
                                (if status = [] then SUCCESS_CODE else FAILURE_CODE)
                                status tokens)
                        response),
                     (if status \<noteq> []
                      then [LOG WARNING ''tokenizer error: %1%'' [ArgStr status]]
                      else [])))))"

text \<open>
  Modelled from the spec: the parser of the request envelope is not among the sources;
  by the spec, malformed input fails construction with a descriptive error. The error
  text of a failed construction is therefore not empty.
\<close>

definition descriptive_errors :: "(string \<Rightarrow> string + RequestObject) \<Rightarrow> bool" where
  "descriptive_errors ctor = (\<forall>frame what. ctor frame = Inl what \<longrightarrow> what \<noteq> [])"

section \<open>The session (Session.cpp)\<close>

definition DATA_DELIMITER :: char where
  "DATA_DELIMITER = CHR 0x0A"

text \<open>
  The coroutine of \<^verbatim>\<open>SessionImp\<close> is at its start, suspended at the first \<^verbatim>\<open>yield\<close>
  (the read), suspended at the second (the write), or complete (the loop was left by
  \<^verbatim>\<open>break\<close>).
\<close>

datatype coroutine = Initial | AwaitingFrame | AwaitingWriteComplete | Complete

text \<open>
  The members \<^verbatim>\<open>req_\<close>, \<^verbatim>\<open>res_\<close> (here \<open>req\<close>, \<open>res\<close>), whether \<^verbatim>\<open>sock_\<close> is open,
  and whether \<^verbatim>\<open>closeConnection\<close> still connects \<^verbatim>\<open>atClose_\<close> to the slot that the
  constructor installed, the one that emits the owner's close signal.
\<close>

record SessionImp =
  coro :: coroutine
  sock_is_open :: bool
  closeConnection_connected :: bool
  req :: string
  res :: string

text \<open>
  What a call does to the outside: log entries, socket operations, the owner's close
  signal \<^verbatim>\<open>mainClose()\<close>, the asynchronous operations it starts (the write with the
  bytes to send), and the call of the handler with the frame it is given and the log
  entries the handler writes during the call.
\<close>

datatype effect =
    Log log_entry
  | sock_cancel
  | sock_shutdown
  | sock_close
  | mainClose
  | async_read_until
  | async_write string
  | handler_handle string "log_entry list"

type_synonym Handler = "string \<Rightarrow> string \<Rightarrow> (error_code \<times> string) \<times> log_entry list"

record AbstractHandlerFactory =
  getRequestHandler :: "Handler option"

text \<open>
  The surroundings of a call: \<^verbatim>\<open>Context::getHandlerFactory()\<close> (\<open>None\<close> for the null
  pointer, as for the handler of a factory) and the error codes that the three socket
  operations of \<^verbatim>\<open>close\<close> report.
\<close>

record environment =
  getHandlerFactory :: "AbstractHandlerFactory option"
  cancel_result :: error_code
  shutdown_result :: error_code
  close_result :: error_code

text \<open>The constructor: empty buffers, the slot connected, the coroutine at its start.\<close>

definition SessionImp_ctor :: "bool \<Rightarrow> SessionImp" where
  "SessionImp_ctor is_open =
     \<lparr>coro = Initial, sock_is_open = is_open, closeConnection_connected = True,
      req = [], res = []\<rparr>"

definition log_error_if_failed :: "error_code \<Rightarrow> effect list" where
  "log_error_if_failed error =
     (if failed error then [Log (LOG ERROR (message error) [])] else [])"

text \<open>
  \<^verbatim>\<open>SessionImp::close()\<close>. The socket is not open after \<^verbatim>\<open>sock_.close(error)\<close>, whatever
  the error code. Emitting \<^verbatim>\<open>atClose_\<close> runs the connected slot, which emits the owner's
  signal; with the slot disconnected it runs nothing.
\<close>

definition close :: "environment \<Rightarrow> SessionImp \<Rightarrow> SessionImp \<times> effect list" where
  "close env s =
     (let (s1, ev1) =
            (if sock_is_open s
             then (s\<lparr>sock_is_open := False\<rparr>,
                   [sock_cancel] @ log_error_if_failed (cancel_result env) @
                   [sock_shutdown] @ log_error_if_failed (shutdown_result env) @
                   [sock_close] @ log_error_if_failed (close_result env))
             else (s, []));
          ev2 = (if closeConnection_connected s1 then [mainClose] else [])
      in (s1\<lparr>closeConnection_connected := False\<rparr>,
          [Log (LOG DEBUG ''try close session'' [])] @ ev1 @ ev2))"

text \<open>
  \<^verbatim>\<open>std::sregex_token_iterator{begin, end, regByDelimiter, -1}\<close> enumerates the parts
  of the buffer between the matches of the delimiter: the prefix of every match, empty
  or not, and after the last match the rest of the buffer if it is not empty. With no
  match at all it enumerates the whole buffer as one token.
\<close>

fun suffix_tokens :: "string \<Rightarrow> string \<Rightarrow> string list" where
  "suffix_tokens cur [] = (if cur = [] then [] else [cur])"
| "suffix_tokens cur (c # cs) =
     (if c = DATA_DELIMITER then cur # suffix_tokens [] cs
      else suffix_tokens (cur @ [c]) cs)"

definition sregex_tokens :: "string \<Rightarrow> string list" where
  "sregex_tokens buffer =
     (if DATA_DELIMITER \<in> set buffer then suffix_tokens [] buffer else [buffer])"

text \<open>
  The loop that advances \<^verbatim>\<open>requestIterator\<close> while it has a successor and counts the
  steps in the 32-bit \<^verbatim>\<open>ignoreRequestCounter\<close>. The iterator is the list of the tokens
  from its position on.
\<close>

fun ignore_requests :: "string list \<Rightarrow> 32 word \<Rightarrow> string list \<times> 32 word" where
  "ignore_requests (t # u # ts) ignoreRequestCounter =
     ignore_requests (u # ts) (ignoreRequestCounter + 1)"
| "ignore_requests ts ignoreRequestCounter = (ts, ignoreRequestCounter)"

text \<open>\<^verbatim>\<open>LOG_INFO("was ignored %1% requests in buffer", ignoreRequestCounter)\<close>\<close>

definition was_ignored :: "int \<Rightarrow> effect" where
  "was_ignored n = Log (LOG INFO ''was ignored %1% requests in buffer'' [ArgInt n])"

text \<open>\<^verbatim>\<open>close(); break;\<close> after an error was logged: the coroutine is complete.\<close>

definition close_and_break ::
  "environment \<Rightarrow> SessionImp \<Rightarrow> effect list \<Rightarrow> SessionImp \<times> effect list" where
  "close_and_break env s logged =
     (case close env s of (s', ev) \<Rightarrow> (s'\<lparr>coro := Complete\<rparr>, logged @ ev))"

text \<open>
  The body of the loop from the resumption after the read to the second \<^verbatim>\<open>yield\<close>.
  \<open>None\<close> is undefined behaviour of the source: \<^verbatim>\<open>*req_.rbegin()\<close> of an empty buffer
  (a successful \<^verbatim>\<open>async_read_until\<close> leaves the delimiter in the buffer, so it is not
  empty then).
\<close>

definition request_handling ::
  "environment \<Rightarrow> SessionImp \<Rightarrow> nat \<Rightarrow> (SessionImp \<times> effect list) option" where
  "request_handling env s transfered =
     (let readed = [Log (LOG INFO ''readed: %1.3fKb'' [ArgBytes_div_1024 transfered]),
                    Log (LOG INFO ''in buffer: %1.3fKb'' [ArgBytes_div_1024 (length (req s))])]
      in
      case getHandlerFactory env of
        None \<Rightarrow>
          Some (close_and_break env s
                  (readed @ [Log (LOG ERROR ''handler factory not set'' [])]))
      | Some factory \<Rightarrow>
          (case getRequestHandler factory of
             None \<Rightarrow>
               Some (close_and_break env s
                       (readed @ [Log (LOG ERROR ''invalid handler'' [])]))
           | Some handler \<Rightarrow>
               (case ignore_requests (sregex_tokens (req s)) 0 of
                  (requestIterator, ignoreRequestCounter) \<Rightarrow>
                    (let ignored =
                           (if ignoreRequestCounter \<noteq> 0
                            then [was_ignored (sint ignoreRequestCounter)]
                            else [])
                     in
                     if req s = [] then None
                     else
                       (case requestIterator of
                          [] \<Rightarrow> None
                        | request # rest \<Rightarrow>
                            if last (req s) = DATA_DELIMITER
                            then
                              (case handler request (res s) of
                                 ((err, response), handler_log) \<Rightarrow>
                                   (let s1 = s\<lparr>res := response\<rparr>;
                                        handled =
                                          readed @ ignored @
                                          [Log (LOG DEBUG ''handle request'' []),
                                           handler_handle request handler_log]
                                    in
                                    if failed err
                                    then Some (close_and_break env s1
                                                 (handled @
                                                  [Log (LOG ERROR (message err) [])]))
                                    else if response = []
                                    then Some (close_and_break env s1
                                                 (handled @
                                                  [Log (LOG ERROR ''response is empty'' [])]))
                                    else
                                      Some (s1\<lparr>res := response @ [DATA_DELIMITER],
                                                coro := AwaitingWriteComplete\<rparr>,
                                            handled @
                                            [async_write (response @ [DATA_DELIMITER])])))
                            else
                              Some (s\<lparr>req := request, coro := AwaitingFrame\<rparr>,
                                    readed @ ignored @
                                    [Log (LOG DEBUG
                                            ''buffer contains partial data, so read again'' []),
                                     async_read_until]))))))"

text \<open>
  \<^verbatim>\<open>SessionImp::operator()(self, error, transfered)\<close>: the completion handler of both
  asynchronous operations, and the body of \<^verbatim>\<open>start\<close>. Without an error it re-enters
  the coroutine where it was suspended; a complete coroutine does nothing.
\<close>

definition operator_call ::
  "environment \<Rightarrow> SessionImp \<Rightarrow> error_code \<Rightarrow> nat \<Rightarrow> (SessionImp \<times> effect list) option" where
  "operator_call env s error transfered =
     (if \<not> failed error
      then
        (case coro s of
           Initial \<Rightarrow> Some (s\<lparr>coro := AwaitingFrame\<rparr>, [async_read_until])
         | AwaitingFrame \<Rightarrow> request_handling env s transfered
         | AwaitingWriteComplete \<Rightarrow>
             Some (s\<lparr>req := [], res := [], coro := AwaitingFrame\<rparr>,
                   [Log (LOG INFO ''writed: %1.3fKb'' [ArgBytes_div_1024 transfered]),
                    async_read_until])
         | Complete \<Rightarrow> Some (s, []))
      else if error = eof
      then
        (case close env s of
           (s', ev) \<Rightarrow> Some (s', Log (LOG DEBUG ''client close socket'' []) # ev))
      else
        (case close env s of
           (s', ev) \<Rightarrow> Some (s', Log (LOG WARNING (message error) []) # ev)))"

definition start :: "environment \<Rightarrow> SessionImp \<Rightarrow> (SessionImp \<times> effect list) option" where
  "start env s = operator_call env s success 0"

section \<open>Frames and segments, in the spec's words\<close>

text \<open>
  A frame is a segment without the delimiter, followed by the delimiter; a buffer that
  holds complete frames only is their concatenation.
\<close>

definition delimiter_free :: "string \<Rightarrow> bool" where
  "delimiter_free segment = (DATA_DELIMITER \<notin> set segment)"

definition join_frames :: "string list \<Rightarrow> string" where
  "join_frames frames = concat (map (\<lambda>f. f @ [DATA_DELIMITER]) frames)"

text \<open>The trailing segment of a buffer: what follows its last delimiter.\<close>

definition trailing_segment :: "string \<Rightarrow> string" where
  "trailing_segment buffer = rev (takeWhile (\<lambda>c. c \<noteq> DATA_DELIMITER) (rev buffer))"

text \<open>Kinds of effects.\<close>

fun is_dispatch :: "effect \<Rightarrow> bool" where
  "is_dispatch (handler_handle request handler_log) = True"
| "is_dispatch e = False"

fun is_async :: "effect \<Rightarrow> bool" where
  "is_async async_read_until = True"
| "is_async (async_write bytes) = True"
| "is_async e = False"

fun is_socket_op :: "effect \<Rightarrow> bool" where
  "is_socket_op sock_cancel = True"
| "is_socket_op sock_shutdown = True"
| "is_socket_op sock_close = True"
| "is_socket_op e = False"

text \<open>
  The terminal state of a session: the coroutine is complete, the socket is closed and
  the owner's slot is disconnected.
\<close>

definition terminal :: "SessionImp \<Rightarrow> bool" where
  "terminal s =
     (coro s = Complete \<and> \<not> sock_is_open s \<and> \<not> closeConnection_connected s)"

section \<open>Example surroundings\<close>

definition example_handler :: Handler where
  "example_handler request response = ((success, ''re:'' @ request), [])"

definition example_environment :: environment where
  "example_environment =
     \<lparr>getHandlerFactory = Some \<lparr>getRequestHandler = Some example_handler\<rparr>,
      cancel_result = success, shutdown_result = success, close_result = success\<rparr>"

definition example_tokenizer :: "nat Tokenizer" where
  "example_tokenizer nm body info toks =
     (if body = ''bad'' then ''unexpected token'' else [], toks @ [1, 2, 3])"

definition example_collaborators :: "nat collaborators" where
  "example_collaborators =
     \<lparr>RequestObject_ctor =
        (\<lambda>frame. if frame = [] then Inl ''parse error: empty input''
                  else Inr \<lparr>msg_num = 7, id' = 42, buf_type = frame,
                            buf_name = ''main.cpp'', buf_body = frame,
                            additional_info = []\<rparr>),
      getTokenizer =
        (\<lambda>t. if t = ''cpp'' \<or> t = ''bad'' then Some example_tokenizer else None),
      dump = (\<lambda>r out. declared_type r @ '':'' @ error_message r)\<rparr>"

section \<open>Splitting a buffer\<close>

lemma suffix_tokens_segment:
  "delimiter_free t \<Longrightarrow>
   suffix_tokens cur (t @ DATA_DELIMITER # rest) = (cur @ t) # suffix_tokens [] rest"
  by (induction t arbitrary: cur) (auto simp: delimiter_free_def)

lemma suffix_tokens_delimiter_free:
  "delimiter_free p \<Longrightarrow> suffix_tokens cur p = (if cur @ p = [] then [] else [cur @ p])"
  by (induction p arbitrary: cur) (auto simp: delimiter_free_def)

lemma join_frames_Cons:
  "join_frames (f # fs) = f @ DATA_DELIMITER # join_frames fs"
  by (simp add: join_frames_def)

lemma join_frames_Nil: "join_frames [] = []"
  by (simp add: join_frames_def)

lemma join_frames_append:
  "join_frames (fs @ gs) = join_frames fs @ join_frames gs"
  by (simp add: join_frames_def)

lemma join_frames_snoc:
  "join_frames (earlier @ [frame]) = join_frames earlier @ frame @ [DATA_DELIMITER]"
  by (simp add: join_frames_append join_frames_Cons join_frames_Nil)

lemma suffix_tokens_join:
  "\<forall>f \<in> set fs. delimiter_free f \<Longrightarrow> delimiter_free p \<Longrightarrow>
   suffix_tokens [] (join_frames fs @ p) = fs @ (if p = [] then [] else [p])"
proof (induction fs)
  case Nil
  then show ?case by (simp add: join_frames_Nil suffix_tokens_delimiter_free)
next
  case (Cons f fs)
  then show ?case by (simp add: join_frames_Cons suffix_tokens_segment)
qed

lemma delimiter_in_join: "fs \<noteq> [] \<Longrightarrow> DATA_DELIMITER \<in> set (join_frames fs)"
  by (cases fs) (simp_all add: join_frames_Cons)

lemma sregex_tokens_join:
  assumes "\<forall>f \<in> set fs. delimiter_free f" and "delimiter_free p"
    and "fs \<noteq> [] \<or> p \<noteq> []"
  shows "sregex_tokens (join_frames fs @ p) = fs @ (if p = [] then [] else [p])"
proof (cases "fs = []")
  case True
  with assms show ?thesis
    by (simp add: sregex_tokens_def join_frames_Nil delimiter_free_def)
next
  case False
  then have "DATA_DELIMITER \<in> set (join_frames fs @ p)"
    by (simp add: delimiter_in_join)
  with assms show ?thesis
    by (simp add: sregex_tokens_def suffix_tokens_join)
qed

lemma frames_unique:
  assumes "join_frames fs = join_frames gs"
    and "\<forall>f \<in> set fs. delimiter_free f" and "\<forall>f \<in> set gs. delimiter_free f"
  shows "fs = gs"
proof -
  have "suffix_tokens [] (join_frames fs @ []) = fs @ []"
    using suffix_tokens_join [of fs "[]"] assms(2) by (simp add: delimiter_free_def)
  moreover have "suffix_tokens [] (join_frames gs @ []) = gs @ []"
    using suffix_tokens_join [of gs "[]"] assms(3) by (simp add: delimiter_free_def)
  ultimately show ?thesis using assms(1) by simp
qed

lemma buffer_decomposition:
  "\<exists>fs p. buffer = join_frames fs @ p \<and> (\<forall>f \<in> set fs. delimiter_free f) \<and> delimiter_free p"
proof (induction buffer)
  case Nil
  have "[] = join_frames [] @ [] \<and> (\<forall>f \<in> set ([]::string list). delimiter_free f) \<and> delimiter_free []"
    by (simp add: join_frames_Nil delimiter_free_def)
  then show ?case by blast
next
  case (Cons c buffer)
  then obtain fs p where d: "buffer = join_frames fs @ p"
    "\<forall>f \<in> set fs. delimiter_free f" "delimiter_free p" by blast
  show ?case
  proof (cases "c = DATA_DELIMITER")
    case True
    with d have "c # buffer = join_frames ([] # fs) @ p \<and>
      (\<forall>f \<in> set ([] # fs). delimiter_free f) \<and> delimiter_free p"
      by (simp add: join_frames_Cons delimiter_free_def)
    then show ?thesis by blast
  next
    case False
    show ?thesis
    proof (cases fs)
      case Nil
      with d False have "c # buffer = join_frames [] @ (c # p) \<and>
        (\<forall>f \<in> set ([]::string list). delimiter_free f) \<and> delimiter_free (c # p)"
        by (simp add: join_frames_Nil delimiter_free_def)
      then show ?thesis by blast
    next
      case (Cons f fs')
      with d False have "c # buffer = join_frames ((c # f) # fs') @ p \<and>
        (\<forall>g \<in> set ((c # f) # fs'). delimiter_free g) \<and> delimiter_free p"
        by (simp add: join_frames_Cons delimiter_free_def)
      then show ?thesis by blast
    qed
  qed
qed

lemma join_frames_ends:
  "join_frames fs = [] \<or> (\<exists>b. join_frames fs = b @ [DATA_DELIMITER])"
  by (cases fs rule: rev_cases) (simp_all add: join_frames_Nil join_frames_append join_frames_Cons)

lemma length_join_frames: "length fs \<le> length (join_frames fs)"
  by (induction fs) (simp_all add: join_frames_Nil join_frames_Cons)

lemma takeWhile_delimiter_free:
  "delimiter_free p \<Longrightarrow> takeWhile (\<lambda>c. c \<noteq> DATA_DELIMITER) (rev p @ DATA_DELIMITER # b) = rev p"
proof -
  assume "delimiter_free p"
  then have "\<And>x. x \<in> set (rev p) \<Longrightarrow> x \<noteq> DATA_DELIMITER"
    by (auto simp: delimiter_free_def)
  then have "takeWhile (\<lambda>c. c \<noteq> DATA_DELIMITER) (rev p @ DATA_DELIMITER # b) =
     rev p @ takeWhile (\<lambda>c. c \<noteq> DATA_DELIMITER) (DATA_DELIMITER # b)"
    by (rule takeWhile_append2)
  then show ?thesis by simp
qed

lemma trailing_segment_after_delimiter:
  "delimiter_free p \<Longrightarrow> trailing_segment (b @ DATA_DELIMITER # p) = p"
  by (simp add: trailing_segment_def takeWhile_delimiter_free)

lemma trailing_segment_delimiter_free:
  assumes "delimiter_free p"
  shows "trailing_segment p = p"
proof -
  from assms have "\<forall>x \<in> set (rev p). x \<noteq> DATA_DELIMITER"
    by (auto simp: delimiter_free_def)
  then have tw: "takeWhile (\<lambda>c. c \<noteq> DATA_DELIMITER) (rev p) = rev p"
    by (simp only: takeWhile_eq_all_conv)
  show ?thesis unfolding trailing_segment_def tw by simp
qed

lemma trailing_segment_join:
  assumes "delimiter_free p"
  shows "trailing_segment (join_frames fs @ p) = p"
  using join_frames_ends [of fs] assms
  by (auto simp: trailing_segment_after_delimiter trailing_segment_delimiter_free)

lemma delimiter_free_trailing_segment: "delimiter_free (trailing_segment buffer)"
  by (auto simp: delimiter_free_def trailing_segment_def dest: set_takeWhileD)

lemma tokens_complete:
  assumes "buffer \<noteq> []" and "last buffer = DATA_DELIMITER"
  shows "\<exists>earlier frame. buffer = join_frames (earlier @ [frame]) \<and>
           (\<forall>f \<in> set (earlier @ [frame]). delimiter_free f) \<and>
           sregex_tokens buffer = earlier @ [frame]"
proof -
  obtain fs p where d: "buffer = join_frames fs @ p"
    "\<forall>f \<in> set fs. delimiter_free f" "delimiter_free p"
    using buffer_decomposition by blast
  have "p = []"
  proof (rule ccontr)
    assume "p \<noteq> []"
    with d(1) have "last buffer = last p" by simp
    with assms(2) \<open>p \<noteq> []\<close> d(3) show False
      by (metis delimiter_free_def last_in_set)
  qed
  with d assms(1) have fs: "buffer = join_frames fs" "fs \<noteq> []"
    by (auto simp: join_frames_Nil)
  then obtain earlier frame where e: "fs = earlier @ [frame]"
    by (cases fs rule: rev_cases) auto
  have "sregex_tokens (join_frames fs @ []) = fs @ []"
    using sregex_tokens_join [of fs "[]"] d(2) fs(2) by (simp add: delimiter_free_def)
  with fs e d(2) show ?thesis by auto
qed

lemma tokens_partial:
  assumes "buffer \<noteq> []" and "last buffer \<noteq> DATA_DELIMITER"
  shows "\<exists>earlier p. buffer = join_frames earlier @ p \<and> p \<noteq> [] \<and>
           (\<forall>f \<in> set earlier. delimiter_free f) \<and> delimiter_free p \<and>
           sregex_tokens buffer = earlier @ [p]"
proof -
  obtain fs p where d: "buffer = join_frames fs @ p"
    "\<forall>f \<in> set fs. delimiter_free f" "delimiter_free p"
    using buffer_decomposition by blast
  have "p \<noteq> []"
  proof
    assume "p = []"
    with d(1) assms join_frames_ends [of fs] show False by auto
  qed
  with d sregex_tokens_join [of fs p] show ?thesis by auto
qed

section \<open>The loop and its counter\<close>

lemma ignore_requests_last:
  "ts \<noteq> [] \<Longrightarrow> ignore_requests ts k = ([last ts], k + of_nat (length ts - 1))"
  by (induction ts k rule: ignore_requests.induct) simp_all

lemma ignore_requests_snoc:
  "ignore_requests (earlier @ [frame]) 0 = ([frame], of_nat (length earlier))"
  by (simp add: ignore_requests_last)

lemma sint_counter:
  assumes "n < 2 ^ 31"
  shows "sint (of_nat n :: 32 word) = int n"
proof -
  have "sint (of_nat n :: 32 word) = signed_take_bit 31 (int n)"
    by (simp add: signed_of_nat)
  also have "\<dots> = int n"
    using assms by (intro signed_take_bit_int_eq_self) simp_all
  finally show ?thesis .
qed

lemma counter_zero:
  assumes "n < 2 ^ 31"
  shows "(of_nat n :: 32 word) = 0 \<longleftrightarrow> n = 0"
proof
  assume "(of_nat n :: 32 word) = 0"
  then have "sint (of_nat n :: 32 word) = 0" by simp
  with assms show "n = 0" by (simp add: sint_counter)
qed simp

section \<open>Facts about the session's steps\<close>

lemma not_in_filtered:
  "filter P xs = ys \<Longrightarrow> P x \<Longrightarrow> x \<notin> set ys \<Longrightarrow> x \<notin> set xs"
  by auto

lemma close_facts:
  assumes "close env s = (s', ev)"
  shows "\<not> sock_is_open s'" and "\<not> closeConnection_connected s'"
    and "coro s' = coro s" and "req s' = req s" and "res s' = res s"
    and "filter is_dispatch ev = []" and "filter is_async ev = []"
    and "mainClose \<in> set ev \<longleftrightarrow> closeConnection_connected s"
    and "sock_close \<in> set ev \<longleftrightarrow> sock_is_open s"
    and "was_ignored n \<notin> set ev"
    and "count_list ev mainClose = (if closeConnection_connected s then 1 else 0)"
    and "filter is_socket_op ev = (if sock_is_open s then [sock_cancel, sock_shutdown, sock_close] else [])"
  using assms
  by (auto simp: close_def log_error_if_failed_def was_ignored_def split: if_splits)

lemma close_and_break_facts:
  assumes "close_and_break env s logged = (s', ev)"
  shows "terminal s'" and "req s' = req s" and "res s' = res s"
    and "filter is_dispatch ev = filter is_dispatch logged"
    and "filter is_async ev = filter is_async logged"
    and "mainClose \<in> set ev \<longleftrightarrow> mainClose \<in> set logged \<or> closeConnection_connected s"
    and "sock_close \<in> set ev \<longleftrightarrow> sock_close \<in> set logged \<or> sock_is_open s"
    and "was_ignored n \<in> set ev \<longleftrightarrow> was_ignored n \<in> set logged"
proof -
  obtain s1 ev1 where c: "close env s = (s1, ev1)" by (cases "close env s")
  with assms have e: "s' = s1\<lparr>coro := Complete\<rparr>" "ev = logged @ ev1"
    by (auto simp: close_and_break_def)
  note f = close_facts [OF c]
  show "terminal s'" using e f(1,2) by (simp add: terminal_def)
  show "req s' = req s" using e f(4) by simp
  show "res s' = res s" using e f(5) by simp
  show "filter is_dispatch ev = filter is_dispatch logged" using e f(6) by simp
  show "filter is_async ev = filter is_async logged" using e f(7) by simp
  show "mainClose \<in> set ev \<longleftrightarrow> mainClose \<in> set logged \<or> closeConnection_connected s"
    using e f(8) by auto
  show "sock_close \<in> set ev \<longleftrightarrow> sock_close \<in> set logged \<or> sock_is_open s"
    using e f(9) by auto
  show "was_ignored n \<in> set ev \<longleftrightarrow> was_ignored n \<in> set logged"
    using e f(10) by auto
qed

lemma terminal_stays:
  assumes "terminal s"
  shows "\<exists>s' ev. operator_call env s error n = Some (s', ev) \<and> terminal s' \<and>
           filter is_async ev = [] \<and> filter is_dispatch ev = [] \<and>
           filter is_socket_op ev = [] \<and> mainClose \<notin> set ev \<and>
           req s' = req s \<and> res s' = res s"
  using assms
  by (cases error)
     (auto simp: operator_call_def terminal_def close_def)

lemma write_completed:
  assumes "coro s = AwaitingWriteComplete"
  shows "operator_call env s success n =
     Some (s\<lparr>req := [], res := [], coro := AwaitingFrame\<rparr>,
           [Log (LOG INFO ''writed: %1.3fKb'' [ArgBytes_div_1024 n]), async_read_until])"
  using assms by (simp add: operator_call_def)

lemma request_handling_no_handler:
  assumes "getHandlerFactory env = None \<or>
         (\<exists>factory. getHandlerFactory env = Some factory \<and> getRequestHandler factory = None)"
  shows "\<exists>logged. request_handling env s n = Some (close_and_break env s logged) \<and>
           filter is_dispatch logged = [] \<and> filter is_async logged = []"
  using assms by (auto simp: request_handling_def)

lemma request_handling_empty:
  assumes "getHandlerFactory env = Some factory"
    and "getRequestHandler factory = Some handler"
    and "req s = []"
  shows "request_handling env s n = None"
  using assms by (simp add: request_handling_def split: prod.splits)

lemma request_handling_dispatch:
  assumes "getHandlerFactory env = Some factory"
    and "getRequestHandler factory = Some handler"
    and "req s \<noteq> []" and "last (req s) = DATA_DELIMITER"
    and "ignore_requests (sregex_tokens (req s)) 0 = (frame # rest, k)"
    and "handler frame (res s) = ((err, response), hlog)"
  shows "request_handling env s n =
     Some (if failed err
           then close_and_break env (s\<lparr>res := response\<rparr>)
                  ([Log (LOG INFO ''readed: %1.3fKb'' [ArgBytes_div_1024 n]),
                    Log (LOG INFO ''in buffer: %1.3fKb'' [ArgBytes_div_1024 (length (req s))])] @
                   (if k \<noteq> 0 then [was_ignored (sint k)] else []) @
                   [Log (LOG DEBUG ''handle request'' []), handler_handle frame hlog] @
                   [Log (LOG ERROR (message err) [])])
           else if response = []
           then close_and_break env (s\<lparr>res := response\<rparr>)
                  ([Log (LOG INFO ''readed: %1.3fKb'' [ArgBytes_div_1024 n]),
                    Log (LOG INFO ''in buffer: %1.3fKb'' [ArgBytes_div_1024 (length (req s))])] @
                   (if k \<noteq> 0 then [was_ignored (sint k)] else []) @
                   [Log (LOG DEBUG ''handle request'' []), handler_handle frame hlog] @
                   [Log (LOG ERROR ''response is empty'' [])])
           else (s\<lparr>res := response @ [DATA_DELIMITER], coro := AwaitingWriteComplete\<rparr>,
                 [Log (LOG INFO ''readed: %1.3fKb'' [ArgBytes_div_1024 n]),
                  Log (LOG INFO ''in buffer: %1.3fKb'' [ArgBytes_div_1024 (length (req s))])] @
                 (if k \<noteq> 0 then [was_ignored (sint k)] else []) @
                 [Log (LOG DEBUG ''handle request'' []), handler_handle frame hlog] @
                 [async_write (response @ [DATA_DELIMITER])]))"
  using assms by (simp add: request_handling_def)

lemma request_handling_partial:
  assumes "getHandlerFactory env = Some factory"
    and "getRequestHandler factory = Some handler"
    and "req s \<noteq> []" and "last (req s) \<noteq> DATA_DELIMITER"
    and "ignore_requests (sregex_tokens (req s)) 0 = (frame # rest, k)"
  shows "request_handling env s n =
     Some (s\<lparr>req := frame, coro := AwaitingFrame\<rparr>,
           [Log (LOG INFO ''readed: %1.3fKb'' [ArgBytes_div_1024 n]),
            Log (LOG INFO ''in buffer: %1.3fKb'' [ArgBytes_div_1024 (length (req s))])] @
           (if k \<noteq> 0 then [was_ignored (sint k)] else []) @
           [Log (LOG DEBUG ''buffer contains partial data, so read again'' []),
            async_read_until])"
  using assms by (simp add: request_handling_def)

lemma dispatch_step:
  assumes "coro s = AwaitingFrame"
    and "getHandlerFactory env = Some factory"
    and "getRequestHandler factory = Some handler"
    and "req s = join_frames (earlier @ [frame])"
    and "\<forall>f \<in> set (earlier @ [frame]). delimiter_free f"
    and "handler frame (res s) = ((err, response), hlog)"
  shows "\<exists>s' ev. operator_call env s success n = Some (s', ev) \<and>
           filter is_dispatch ev = [handler_handle frame hlog] \<and>
           (\<forall>m. was_ignored m \<in> set ev \<longleftrightarrow>
                  (of_nat (length earlier) \<noteq> (0 :: 32 word) \<and>
                   m = sint (of_nat (length earlier) :: 32 word))) \<and>
           req s' = req s \<and>
           (if failed err \<or> response = []
            then terminal s' \<and> filter is_async ev = [] \<and>
                 (closeConnection_connected s \<longrightarrow> mainClose \<in> set ev) \<and>
                 (sock_is_open s \<longrightarrow> sock_close \<in> set ev)
            else coro s' = AwaitingWriteComplete \<and>
                 sock_is_open s' = sock_is_open s \<and>
                 closeConnection_connected s' = closeConnection_connected s \<and>
                 res s' = response @ [DATA_DELIMITER] \<and>
                 filter is_async ev = [async_write (response @ [DATA_DELIMITER])] \<and>
                 mainClose \<notin> set ev \<and> filter is_socket_op ev = [])"
proof -
  define k :: "32 word" where "k = of_nat (length earlier)"
  define P where "P =
    [Log (LOG INFO ''readed: %1.3fKb'' [ArgBytes_div_1024 n]),
     Log (LOG INFO ''in buffer: %1.3fKb'' [ArgBytes_div_1024 (length (req s))])] @
    (if k \<noteq> 0 then [was_ignored (sint k)] else []) @
    [Log (LOG DEBUG ''handle request'' []), handler_handle frame hlog]"
  have P: "filter is_dispatch P = [handler_handle frame hlog]" "filter is_async P = []"
    "mainClose \<notin> set P" "sock_close \<notin> set P" "filter is_socket_op P = []"
    "\<And>m. was_ignored m \<in> set P \<longleftrightarrow> k \<noteq> 0 \<and> m = sint k"
    by (auto simp: P_def was_ignored_def)
  have ne: "req s \<noteq> []" "last (req s) = DATA_DELIMITER"
    using assms(4) by (simp_all add: join_frames_snoc)
  have "sregex_tokens (join_frames (earlier @ [frame]) @ []) = (earlier @ [frame]) @ []"
    using sregex_tokens_join [of "earlier @ [frame]" "[]"] assms(5)
    by (simp add: delimiter_free_def)
  then have ign: "ignore_requests (sregex_tokens (req s)) 0 = ([frame], k)"
    using assms(4) by (simp add: ignore_requests_snoc k_def)
  note rh = request_handling_dispatch [OF assms(2,3) ne ign assms(6), of n]
  show ?thesis
  proof (cases "failed err \<or> response = []")
    case True
    define logged where "logged =
      P @ [Log (LOG ERROR (if failed err then message err else ''response is empty'') [])]"
    have L: "filter is_dispatch logged = [handler_handle frame hlog]"
      "filter is_async logged = []"
      "\<And>m. was_ignored m \<in> set logged \<longleftrightarrow> k \<noteq> 0 \<and> m = sint k"
      using P by (auto simp: logged_def was_ignored_def)
    have r: "request_handling env s n = Some (close_and_break env (s\<lparr>res := response\<rparr>) logged)"
      using rh True by (auto simp: logged_def P_def)
    obtain s' ev where cb: "close_and_break env (s\<lparr>res := response\<rparr>) logged = (s', ev)"
      by (cases "close_and_break env (s\<lparr>res := response\<rparr>) logged")
    note f = close_and_break_facts [OF cb]
    have "operator_call env s success n = Some (s', ev)"
      using assms(1) r cb by (simp add: operator_call_def)
    moreover have "filter is_dispatch ev = [handler_handle frame hlog]"
      using f(4) L(1) by simp
    moreover have "\<forall>m. was_ignored m \<in> set ev \<longleftrightarrow> (k \<noteq> 0 \<and> m = sint k)"
      using f(8) L(3) by simp
    moreover have "req s' = req s" using f(2) by simp
    moreover have "terminal s'" by (rule f(1))
    moreover have "filter is_async ev = []" using f(5) L(2) by simp
    moreover have "closeConnection_connected s \<longrightarrow> mainClose \<in> set ev" using f(6) by simp
    moreover have "sock_is_open s \<longrightarrow> sock_close \<in> set ev" using f(7) by simp
    ultimately show ?thesis using True unfolding k_def by (intro exI [of _ s'] exI [of _ ev]) simp
  next
    case False
    define s' where "s' = s\<lparr>res := response @ [DATA_DELIMITER], coro := AwaitingWriteComplete\<rparr>"
    define ev where "ev = P @ [async_write (response @ [DATA_DELIMITER])]"
    have r: "request_handling env s n = Some (s', ev)"
      using rh False by (auto simp: s'_def ev_def P_def)
    have "operator_call env s success n = Some (s', ev)"
      using assms(1) r by (simp add: operator_call_def)
    moreover have "filter is_dispatch ev = [handler_handle frame hlog]"
      using P(1) by (simp add: ev_def)
    moreover have "\<forall>m. was_ignored m \<in> set ev \<longleftrightarrow> (k \<noteq> 0 \<and> m = sint k)"
      using P(6) by (auto simp: ev_def was_ignored_def)
    moreover have "filter is_async ev = [async_write (response @ [DATA_DELIMITER])]"
      using P(2) by (simp add: ev_def)
    moreover have "mainClose \<notin> set ev" "filter is_socket_op ev = []"
      using P(3,5) by (simp_all add: ev_def)
    ultimately show ?thesis using False unfolding k_def
      by (intro exI [of _ s'] exI [of _ ev]) (simp add: s'_def)
  qed
qed

lemma partial_step:
  assumes "coro s = AwaitingFrame"
    and "getHandlerFactory env = Some factory"
    and "getRequestHandler factory = Some handler"
    and "req s = join_frames earlier @ p" and "p \<noteq> []"
    and "\<forall>f \<in> set earlier. delimiter_free f" and "delimiter_free p"
  shows "operator_call env s success n =
     Some (s\<lparr>req := p, coro := AwaitingFrame\<rparr>,
           [Log (LOG INFO ''readed: %1.3fKb'' [ArgBytes_div_1024 n]),
            Log (LOG INFO ''in buffer: %1.3fKb'' [ArgBytes_div_1024 (length (req s))])] @
           (if of_nat (length earlier) \<noteq> (0 :: 32 word)
            then [was_ignored (sint (of_nat (length earlier) :: 32 word))] else []) @
           [Log (LOG DEBUG ''buffer contains partial data, so read again'' []),
            async_read_until])"
proof -
  have "last p \<in> set p" using assms(5) by (rule last_in_set)
  with assms(7) have "last p \<noteq> DATA_DELIMITER"
    unfolding delimiter_free_def by auto
  with assms(4,5) have ne: "req s \<noteq> []" "last (req s) \<noteq> DATA_DELIMITER"
    by simp_all
  have "sregex_tokens (req s) = earlier @ [p]"
    using sregex_tokens_join [of earlier p] assms(4-7) by simp
  then have ign: "ignore_requests (sregex_tokens (req s)) 0 = ([p], of_nat (length earlier))"
    by (simp add: ignore_requests_snoc)
  show ?thesis
    using request_handling_partial [OF assms(2,3) ne ign, of n] assms(1)
    by (simp add: operator_call_def)
qed

lemma read_issued_buffer:
  assumes "operator_call env s error n = Some (s', ev)"
    and "async_read_until \<in> set ev" and "coro s \<noteq> Initial"
  shows "req s' = [] \<or>
         (req s \<noteq> [] \<and> last (req s) \<noteq> DATA_DELIMITER \<and>
          req s' = trailing_segment (req s))"
proof (cases "failed error")
  case True
  obtain s1 ev1 where c: "close env s = (s1, ev1)" by (cases "close env s")
  from True have "error \<noteq> success" by auto
  with assms(1) c True obtain e where "ev = Log e # ev1"
    by (auto simp: operator_call_def split: if_splits)
  with close_facts(7) [OF c] assms(2) show ?thesis
    by (auto simp: filter_empty_conv)
next
  case False
  show ?thesis
  proof (cases "coro s")
    case Initial
    with assms(3) show ?thesis by simp
  next
    case AwaitingWriteComplete
    with assms(1) False show ?thesis by (auto simp: operator_call_def)
  next
    case Complete
    with assms(1,2) False show ?thesis by (auto simp: operator_call_def)
  next
    case AwaitingFrame
    from False have su: "error = success" by (cases error) simp_all
    show ?thesis
    proof (cases "getHandlerFactory env = None \<or>
         (\<exists>factory. getHandlerFactory env = Some factory \<and> getRequestHandler factory = None)")
      case True
      then obtain logged where r: "request_handling env s n = Some (close_and_break env s logged)"
        and l: "filter is_async logged = []"
        using request_handling_no_handler by blast
      from assms(1) False AwaitingFrame r have cb: "close_and_break env s logged = (s', ev)"
        by (simp add: operator_call_def)
      from close_and_break_facts(5) [OF cb] l have "filter is_async ev = []" by simp
      with assms(2) show ?thesis by (auto simp: filter_empty_conv)
    next
      case False
      then obtain factory handler where fh: "getHandlerFactory env = Some factory"
        "getRequestHandler factory = Some handler"
        by (cases "getHandlerFactory env") auto
      show ?thesis
      proof (cases "req s = []")
        case True
        from request_handling_empty [OF fh True] assms(1) AwaitingFrame su show ?thesis
          by (simp add: operator_call_def)
      next
        case ne: False
        show ?thesis
        proof (cases "last (req s) = DATA_DELIMITER")
          case True
          obtain earlier frame where d: "req s = join_frames (earlier @ [frame])"
            "\<forall>f \<in> set (earlier @ [frame]). delimiter_free f"
            using tokens_complete [OF ne True] by blast
          obtain err response hlog where h: "handler frame (res s) = ((err, response), hlog)"
            by (metis surj_pair)
          from dispatch_step [OF AwaitingFrame fh d h, of n] assms(1) su
          have "filter is_async ev = [] \<or>
                filter is_async ev = [async_write (response @ [DATA_DELIMITER])]"
            by (auto split: if_splits)
          then have "async_read_until \<notin> set ev"
          proof
            assume "filter is_async ev = []"
            then show ?thesis by (rule not_in_filtered) simp_all
          next
            assume "filter is_async ev = [async_write (response @ [DATA_DELIMITER])]"
            then show ?thesis by (rule not_in_filtered) simp_all
          qed
          with assms(2) show ?thesis by simp
        next
          case False
          obtain earlier p where d: "req s = join_frames earlier @ p" "p \<noteq> []"
            "\<forall>f \<in> set earlier. delimiter_free f" "delimiter_free p"
            using tokens_partial [OF ne False] by blast
          from partial_step [OF AwaitingFrame fh d, of n] assms(1) su
          have "req s' = p" by auto
          with d(1) trailing_segment_join [OF d(4), of earlier] ne False show ?thesis
            by simp
        qed
      qed
    qed
  qed
qed

section \<open>Coalescing\<close>

text \<open>
  Claim C1. When the session is resumed after a read, a handler is available and the
  buffer ends with the delimiter, the buffer is in exactly one way a sequence of frames
  \<open>earlier @ [frame]\<close>, each a delimiter-free segment followed by the delimiter. The handler
  is called once, with the last frame; the number of the earlier frames is logged as
  ignored when there are any (and nothing is logged as ignored otherwise); no read is
  started by this call, which ends waiting for the write or closed; and when the write
  completes, both buffers are emptied before the next read is started. The counter of the
  source has 32 bits, so the buffer is taken to be shorter than \<open>2 ^ 31\<close> bytes.
\<close>

theorem coalescing:
  assumes "coro s = AwaitingFrame"
    and "getHandlerFactory env = Some factory"
    and "getRequestHandler factory = Some handler"
    and "req s \<noteq> []" and "last (req s) = DATA_DELIMITER"
    and "length (req s) < 2 ^ 31"
  shows "\<exists>earlier frame s' ev.
           req s = join_frames (earlier @ [frame]) \<and>
           (\<forall>f \<in> set (earlier @ [frame]). delimiter_free f) \<and>
           (\<forall>frames. req s = join_frames frames \<and> (\<forall>f \<in> set frames. delimiter_free f)
              \<longrightarrow> frames = earlier @ [frame]) \<and>
           operator_call env s success transfered = Some (s', ev) \<and>
           filter is_dispatch ev = [handler_handle frame (snd (handler frame (res s)))] \<and>
           (\<forall>n. was_ignored n \<in> set ev \<longleftrightarrow> earlier \<noteq> [] \<and> n = int (length earlier)) \<and>
           async_read_until \<notin> set ev \<and>
           (coro s' = AwaitingWriteComplete \<or> terminal s') \<and>
           (coro s' = AwaitingWriteComplete \<longrightarrow>
              (\<forall>env' transfered'. \<exists>s'' ev'.
                  operator_call env' s' success transfered' = Some (s'', ev') \<and>
                  req s'' = [] \<and> res s'' = [] \<and> coro s'' = AwaitingFrame \<and>
                  filter is_async ev' = [async_read_until]))"
proof -
  obtain earlier frame where d: "req s = join_frames (earlier @ [frame])"
    "\<forall>f \<in> set (earlier @ [frame]). delimiter_free f"
    using tokens_complete [OF assms(4,5)] by blast
  obtain err response hlog where h: "handler frame (res s) = ((err, response), hlog)"
    by (metis surj_pair)
  have "length earlier \<le> length (req s)"
    using length_join_frames [of "earlier @ [frame]"] d(1) by simp
  with assms(6) have small: "length earlier < 2 ^ 31" by simp
  have k0: "(of_nat (length earlier) :: 32 word) \<noteq> 0 \<longleftrightarrow> earlier \<noteq> []"
    using counter_zero [OF small] by simp
  obtain s' ev where st: "operator_call env s success transfered = Some (s', ev)"
    "filter is_dispatch ev = [handler_handle frame hlog]"
    "\<forall>m. was_ignored m \<in> set ev \<longleftrightarrow>
       (of_nat (length earlier) \<noteq> (0 :: 32 word) \<and>
        m = sint (of_nat (length earlier) :: 32 word))"
    "if failed err \<or> response = []
     then terminal s' \<and> filter is_async ev = [] \<and>
          (closeConnection_connected s \<longrightarrow> mainClose \<in> set ev) \<and>
          (sock_is_open s \<longrightarrow> sock_close \<in> set ev)
     else coro s' = AwaitingWriteComplete \<and>
          sock_is_open s' = sock_is_open s \<and>
          closeConnection_connected s' = closeConnection_connected s \<and>
          res s' = response @ [DATA_DELIMITER] \<and>
          filter is_async ev = [async_write (response @ [DATA_DELIMITER])] \<and>
          mainClose \<notin> set ev \<and> filter is_socket_op ev = []"
    using dispatch_step [OF assms(1-3) d h, of transfered] by blast
  have uniq: "\<forall>frames. req s = join_frames frames \<and> (\<forall>f \<in> set frames. delimiter_free f)
      \<longrightarrow> frames = earlier @ [frame]"
    using frames_unique d by metis
  have ign: "\<forall>n. was_ignored n \<in> set ev \<longleftrightarrow> earlier \<noteq> [] \<and> n = int (length earlier)"
    using st(3) k0 sint_counter [OF small] by simp
  have noread: "async_read_until \<notin> set ev"
  proof (cases "failed err \<or> response = []")
    case True
    with st(4) have "filter is_async ev = []" by simp
    then show ?thesis by (rule not_in_filtered) simp_all
  next
    case False
    with st(4) have "filter is_async ev = [async_write (response @ [DATA_DELIMITER])]" by simp
    then show ?thesis by (rule not_in_filtered) simp_all
  qed
  have state: "coro s' = AwaitingWriteComplete \<or> terminal s'"
    using st(4) by (cases "failed err \<or> response = []") simp_all
  have after: "coro s' = AwaitingWriteComplete \<longrightarrow>
      (\<forall>env' transfered'. \<exists>s'' ev'.
          operator_call env' s' success transfered' = Some (s'', ev') \<and>
          req s'' = [] \<and> res s'' = [] \<and> coro s'' = AwaitingFrame \<and>
          filter is_async ev' = [async_read_until])"
    by (simp add: write_completed)
  have disp: "filter is_dispatch ev = [handler_handle frame (snd (handler frame (res s)))]"
    using st(2) h by simp
  from d uniq st(1) disp ign noread state after show ?thesis by blast
qed

theorem coalescing_witness:
  "operator_call example_environment
     \<lparr>coro = AwaitingFrame, sock_is_open = True, closeConnection_connected = True,
      req = [CHR ''A'', DATA_DELIMITER, CHR ''B'', DATA_DELIMITER, CHR ''C'', DATA_DELIMITER],
      res = []\<rparr> success 6 =
   Some (\<lparr>coro = AwaitingWriteComplete, sock_is_open = True,
           closeConnection_connected = True,
           req = [CHR ''A'', DATA_DELIMITER, CHR ''B'', DATA_DELIMITER, CHR ''C'',
                  DATA_DELIMITER],
           res = ''re:C'' @ [DATA_DELIMITER]\<rparr>,
         [Log (LOG INFO ''readed: %1.3fKb'' [ArgBytes_div_1024 6]),
          Log (LOG INFO ''in buffer: %1.3fKb'' [ArgBytes_div_1024 6]),
          was_ignored 2,
          Log (LOG DEBUG ''handle request'' []),
          handler_handle ''C'' [],
          async_write (''re:C'' @ [DATA_DELIMITER])])"
  using coalescing [of
      "\<lparr>coro = AwaitingFrame, sock_is_open = True, closeConnection_connected = True,
        req = [CHR ''A'', DATA_DELIMITER, CHR ''B'', DATA_DELIMITER, CHR ''C'', DATA_DELIMITER],
        res = []\<rparr>"
      example_environment "\<lparr>getRequestHandler = Some example_handler\<rparr>" example_handler 6]
  by (simp add: operator_call_def request_handling_def example_environment_def
      example_handler_def sregex_tokens_def DATA_DELIMITER_def)

section \<open>Partial retention\<close>

text \<open>
  Claim C2. When the session is resumed after a read and the buffer does not end with
  the delimiter, no handler is called and no write is started; with a handler available
  the buffer is replaced by its trailing segment, the bytes after its last delimiter
  (everything before, a sequence of frames, is dropped), and a read is started again,
  nothing else of the session changing. And after any call that is not the first and
  starts a read, the buffer is empty or is the trailing segment of the buffer that the
  call found.
\<close>

theorem partial_retention:
  assumes "coro s = AwaitingFrame"
    and "req s \<noteq> []" and "last (req s) \<noteq> DATA_DELIMITER"
  shows "(\<exists>s' ev. operator_call env s success transfered = Some (s', ev) \<and>
            filter is_dispatch ev = [] \<and> (\<forall>bytes. async_write bytes \<notin> set ev) \<and>
            ((\<exists>factory handler. getHandlerFactory env = Some factory \<and>
                 getRequestHandler factory = Some handler) \<longrightarrow>
               coro s' = AwaitingFrame \<and> filter is_async ev = [async_read_until] \<and>
               req s' = trailing_segment (req s) \<and> req s' \<noteq> [] \<and>
               delimiter_free (req s') \<and>
               (\<exists>earlier. req s = join_frames earlier @ req s' \<and>
                   (\<forall>f \<in> set earlier. delimiter_free f)) \<and>
               res s' = res s \<and> sock_is_open s' = sock_is_open s \<and>
               closeConnection_connected s' = closeConnection_connected s)) \<and>
         (\<forall>env0 s0 error n s1 ev1.
            operator_call env0 s0 error n = Some (s1, ev1) \<and>
            async_read_until \<in> set ev1 \<and> coro s0 \<noteq> Initial \<longrightarrow>
              req s1 = [] \<or> req s1 = trailing_segment (req s0))"
proof
  show "\<forall>env0 s0 error n s1 ev1.
            operator_call env0 s0 error n = Some (s1, ev1) \<and>
            async_read_until \<in> set ev1 \<and> coro s0 \<noteq> Initial \<longrightarrow>
              req s1 = [] \<or> req s1 = trailing_segment (req s0)"
    using read_issued_buffer by blast
next
  show "\<exists>s' ev. operator_call env s success transfered = Some (s', ev) \<and>
            filter is_dispatch ev = [] \<and> (\<forall>bytes. async_write bytes \<notin> set ev) \<and>
            ((\<exists>factory handler. getHandlerFactory env = Some factory \<and>
                 getRequestHandler factory = Some handler) \<longrightarrow>
               coro s' = AwaitingFrame \<and> filter is_async ev = [async_read_until] \<and>
               req s' = trailing_segment (req s) \<and> req s' \<noteq> [] \<and>
               delimiter_free (req s') \<and>
               (\<exists>earlier. req s = join_frames earlier @ req s' \<and>
                   (\<forall>f \<in> set earlier. delimiter_free f)) \<and>
               res s' = res s \<and> sock_is_open s' = sock_is_open s \<and>
               closeConnection_connected s' = closeConnection_connected s)"
  proof (cases "getHandlerFactory env = None \<or>
         (\<exists>factory. getHandlerFactory env = Some factory \<and> getRequestHandler factory = None)")
    case True
    then obtain logged where r: "request_handling env s transfered = Some (close_and_break env s logged)"
      and l: "filter is_dispatch logged = []" "filter is_async logged = []"
      using request_handling_no_handler by blast
    obtain s' ev where cb: "close_and_break env s logged = (s', ev)"
      by (cases "close_and_break env s logged")
    note f = close_and_break_facts [OF cb]
    have op: "operator_call env s success transfered = Some (s', ev)"
      using assms(1) r cb by (simp add: operator_call_def)
    have "filter is_async ev = []" using f(5) l(2) by simp
    then have nw: "\<forall>bytes. async_write bytes \<notin> set ev"
      by (auto simp: filter_empty_conv)
    have nd: "filter is_dispatch ev = []" using f(4) l(1) by simp
    have none: "\<not> (\<exists>factory handler. getHandlerFactory env = Some factory \<and>
                 getRequestHandler factory = Some handler)"
      using True by auto
    from op nd nw none show ?thesis by blast
  next
    case False
    then obtain factory handler where fh: "getHandlerFactory env = Some factory"
      "getRequestHandler factory = Some handler"
      by (cases "getHandlerFactory env") auto
    obtain earlier p where d: "req s = join_frames earlier @ p" "p \<noteq> []"
      "\<forall>f \<in> set earlier. delimiter_free f" "delimiter_free p"
      using tokens_partial [OF assms(2,3)] by blast
    define ev where "ev =
           [Log (LOG INFO ''readed: %1.3fKb'' [ArgBytes_div_1024 transfered]),
            Log (LOG INFO ''in buffer: %1.3fKb'' [ArgBytes_div_1024 (length (req s))])] @
           (if of_nat (length earlier) \<noteq> (0 :: 32 word)
            then [was_ignored (sint (of_nat (length earlier) :: 32 word))] else []) @
           [Log (LOG DEBUG ''buffer contains partial data, so read again'' []),
            async_read_until]"
    define s' where "s' = s\<lparr>req := p, coro := AwaitingFrame\<rparr>"
    have op: "operator_call env s success transfered = Some (s', ev)"
      using partial_step [OF assms(1) fh d, of transfered] by (simp add: ev_def s'_def)
    have e: "filter is_dispatch ev = []" "\<forall>bytes. async_write bytes \<notin> set ev"
      "filter is_async ev = [async_read_until]"
      by (auto simp: ev_def was_ignored_def)
    have ts: "trailing_segment (req s) = p"
      using d(1) trailing_segment_join [OF d(4), of earlier] by simp
    have st: "coro s' = AwaitingFrame" "req s' = trailing_segment (req s)" "req s' \<noteq> []"
      "delimiter_free (req s')" "res s' = res s" "sock_is_open s' = sock_is_open s"
      "closeConnection_connected s' = closeConnection_connected s"
      using ts d(2,4) by (simp_all add: s'_def)
    have dec: "\<exists>earlier. req s = join_frames earlier @ req s' \<and>
                   (\<forall>f \<in> set earlier. delimiter_free f)"
      using d(1,3) by (auto simp: s'_def)
    from op e st dec show ?thesis by blast
  qed
qed

theorem partial_retention_witness:
  "operator_call example_environment
     \<lparr>coro = AwaitingFrame, sock_is_open = True, closeConnection_connected = True,
      req = [CHR ''A'', DATA_DELIMITER, CHR ''B'', DATA_DELIMITER,
             CHR ''P'', CHR ''A'', CHR ''R'', CHR ''T''],
      res = []\<rparr> success 8 =
   Some (\<lparr>coro = AwaitingFrame, sock_is_open = True, closeConnection_connected = True,
           req = ''PART'', res = []\<rparr>,
         [Log (LOG INFO ''readed: %1.3fKb'' [ArgBytes_div_1024 8]),
          Log (LOG INFO ''in buffer: %1.3fKb'' [ArgBytes_div_1024 8]),
          was_ignored 2,
          Log (LOG DEBUG ''buffer contains partial data, so read again'' []),
          async_read_until])"
  using partial_retention [of
      "\<lparr>coro = AwaitingFrame, sock_is_open = True, closeConnection_connected = True,
        req = [CHR ''A'', DATA_DELIMITER, CHR ''B'', DATA_DELIMITER,
               CHR ''P'', CHR ''A'', CHR ''R'', CHR ''T''],
        res = []\<rparr>" example_environment 8]
  by (simp add: operator_call_def request_handling_def example_environment_def
      example_handler_def sregex_tokens_def DATA_DELIMITER_def)

section \<open>The segment that is dispatched\<close>

text \<open>
  A buffer that holds the delimiter byte only: the handler is called with the empty
  segment, and its response is written. So the claim that the segment handed to the
  handler is never empty does not hold.
\<close>

theorem empty_segment_dispatched:
  "operator_call example_environment
     \<lparr>coro = AwaitingFrame, sock_is_open = True, closeConnection_connected = True,
      req = [DATA_DELIMITER], res = []\<rparr> success 1 =
   Some (\<lparr>coro = AwaitingWriteComplete, sock_is_open = True,
           closeConnection_connected = True,
           req = [DATA_DELIMITER], res = ''re:'' @ [DATA_DELIMITER]\<rparr>,
         [Log (LOG INFO ''readed: %1.3fKb'' [ArgBytes_div_1024 1]),
          Log (LOG INFO ''in buffer: %1.3fKb'' [ArgBytes_div_1024 1]),
          Log (LOG DEBUG ''handle request'' []),
          handler_handle [] [],
          async_write (''re:'' @ [DATA_DELIMITER])])"
  by (simp add: operator_call_def request_handling_def example_environment_def
      example_handler_def sregex_tokens_def)

text \<open>
  Claim C3, amended. When the session is resumed after a read, a handler is available
  and the buffer ends with the delimiter, the one segment handed to the handler is what
  stands between the last two delimiters of the buffer (from the start of the buffer when
  it holds one delimiter): it holds no delimiter, and it is empty exactly when the buffer
  is the delimiter alone or ends with two delimiters. The empty rest after the final
  delimiter is never what is dispatched.
\<close>

theorem dispatched_segment:
  assumes "coro s = AwaitingFrame"
    and "getHandlerFactory env = Some factory"
    and "getRequestHandler factory = Some handler"
    and "req s \<noteq> []" and "last (req s) = DATA_DELIMITER"
  shows "\<exists>frame hlog s' ev.
           operator_call env s success transfered = Some (s', ev) \<and>
           filter is_dispatch ev = [handler_handle frame hlog] \<and>
           delimiter_free frame \<and>
           frame = trailing_segment (butlast (req s)) \<and>
           (frame = [] \<longleftrightarrow>
              req s = [DATA_DELIMITER] \<or>
              (\<exists>b. req s = b @ [DATA_DELIMITER, DATA_DELIMITER]))"
proof -
  obtain earlier frame where d: "req s = join_frames (earlier @ [frame])"
    "\<forall>f \<in> set (earlier @ [frame]). delimiter_free f"
    using tokens_complete [OF assms(4,5)] by blast
  obtain err response hlog where h: "handler frame (res s) = ((err, response), hlog)"
    by (metis surj_pair)
  obtain s' ev where st: "operator_call env s success transfered = Some (s', ev)"
    "filter is_dispatch ev = [handler_handle frame hlog]"
    using dispatch_step [OF assms(1-3) d h, of transfered] by blast
  have df: "delimiter_free frame" using d(2) by simp
  have r: "req s = join_frames earlier @ frame @ [DATA_DELIMITER]"
    using d(1) by (simp add: join_frames_snoc)
  then have "butlast (req s) = join_frames earlier @ frame"
    by (simp add: butlast_append)
  then have ts: "frame = trailing_segment (butlast (req s))"
    using trailing_segment_join [OF df, of earlier] by simp
  have "frame = [] \<longleftrightarrow>
      req s = [DATA_DELIMITER] \<or> (\<exists>b. req s = b @ [DATA_DELIMITER, DATA_DELIMITER])"
  proof
    assume "frame = []"
    with r join_frames_ends [of earlier]
    show "req s = [DATA_DELIMITER] \<or> (\<exists>b. req s = b @ [DATA_DELIMITER, DATA_DELIMITER])"
      by auto
  next
    assume a: "req s = [DATA_DELIMITER] \<or> (\<exists>b. req s = b @ [DATA_DELIMITER, DATA_DELIMITER])"
    show "frame = []"
    proof (rule ccontr)
      assume ne: "frame \<noteq> []"
      then have "last frame \<in> set frame" by (rule last_in_set)
      with df have l: "last frame \<noteq> DATA_DELIMITER"
        unfolding delimiter_free_def by auto
      from a show False
      proof
        assume "req s = [DATA_DELIMITER]"
        with r ne show False by (cases "join_frames earlier"; cases frame) simp_all
      next
        assume "\<exists>b. req s = b @ [DATA_DELIMITER, DATA_DELIMITER]"
        then obtain b where "req s = (b @ [DATA_DELIMITER]) @ [DATA_DELIMITER]" by auto
        with r have "join_frames earlier @ frame = b @ [DATA_DELIMITER]"
          by (metis append_assoc butlast_snoc)
        then have "last (join_frames earlier @ frame) = DATA_DELIMITER" by simp
        with ne l show False by simp
      qed
    qed
  qed
  with st df ts show ?thesis by blast
qed

theorem dispatched_segment_witness:
  "operator_call example_environment
     \<lparr>coro = AwaitingFrame, sock_is_open = True, closeConnection_connected = True,
      req = [CHR ''A'', DATA_DELIMITER, DATA_DELIMITER], res = []\<rparr> success 3 =
   Some (\<lparr>coro = AwaitingWriteComplete, sock_is_open = True,
           closeConnection_connected = True,
           req = [CHR ''A'', DATA_DELIMITER, DATA_DELIMITER],
           res = ''re:'' @ [DATA_DELIMITER]\<rparr>,
         [Log (LOG INFO ''readed: %1.3fKb'' [ArgBytes_div_1024 3]),
          Log (LOG INFO ''in buffer: %1.3fKb'' [ArgBytes_div_1024 3]),
          was_ignored 1,
          Log (LOG DEBUG ''handle request'' []),
          handler_handle [] [],
          async_write (''re:'' @ [DATA_DELIMITER])])"
  using dispatched_segment [of
      "\<lparr>coro = AwaitingFrame, sock_is_open = True, closeConnection_connected = True,
        req = [CHR ''A'', DATA_DELIMITER, DATA_DELIMITER], res = []\<rparr>"
      example_environment "\<lparr>getRequestHandler = Some example_handler\<rparr>" example_handler 3]
  by (simp add: operator_call_def request_handling_def example_environment_def
      example_handler_def sregex_tokens_def DATA_DELIMITER_def)

section \<open>Fatal outcomes of a dispatch\<close>

text \<open>
  Claim C4. When the handler has been called on the last frame of a buffer that ends with
  the delimiter, and it reports a failed error code or leaves the output empty, the
  session is closed: terminal state, no read or write started, the socket closed and the
  owner notified, and no later call starts an asynchronous operation or a dispatch.
  Otherwise the call closes nothing, appends the delimiter to the output and starts the
  write of it.
\<close>

theorem fatal_dispatch_outcomes:
  assumes "coro s = AwaitingFrame"
    and "getHandlerFactory env = Some factory"
    and "getRequestHandler factory = Some handler"
    and "req s \<noteq> []" and "last (req s) = DATA_DELIMITER"
  shows "\<exists>frame err response hlog s' ev.
           handler frame (res s) = ((err, response), hlog) \<and>
           operator_call env s success transfered = Some (s', ev) \<and>
           filter is_dispatch ev = [handler_handle frame hlog] \<and>
           (if failed err \<or> response = []
            then terminal s' \<and> filter is_async ev = [] \<and>
                 (closeConnection_connected s \<longrightarrow> mainClose \<in> set ev) \<and>
                 (sock_is_open s \<longrightarrow> sock_close \<in> set ev) \<and>
                 (\<forall>env' error n. \<exists>s'' ev'.
                     operator_call env' s' error n = Some (s'', ev') \<and> terminal s'' \<and>
                     filter is_async ev' = [] \<and> filter is_dispatch ev' = [])
            else coro s' = AwaitingWriteComplete \<and>
                 sock_is_open s' = sock_is_open s \<and>
                 closeConnection_connected s' = closeConnection_connected s \<and>
                 res s' = response @ [DATA_DELIMITER] \<and>
                 filter is_async ev = [async_write (response @ [DATA_DELIMITER])] \<and>
                 mainClose \<notin> set ev \<and> filter is_socket_op ev = [])"
proof -
  obtain earlier frame where d: "req s = join_frames (earlier @ [frame])"
    "\<forall>f \<in> set (earlier @ [frame]). delimiter_free f"
    using tokens_complete [OF assms(4,5)] by blast
  obtain err response hlog where h: "handler frame (res s) = ((err, response), hlog)"
    by (metis surj_pair)
  obtain s' ev where st: "operator_call env s success transfered = Some (s', ev)"
    "filter is_dispatch ev = [handler_handle frame hlog]"
    "if failed err \<or> response = []
     then terminal s' \<and> filter is_async ev = [] \<and>
          (closeConnection_connected s \<longrightarrow> mainClose \<in> set ev) \<and>
          (sock_is_open s \<longrightarrow> sock_close \<in> set ev)
     else coro s' = AwaitingWriteComplete \<and>
          sock_is_open s' = sock_is_open s \<and>
          closeConnection_connected s' = closeConnection_connected s \<and>
          res s' = response @ [DATA_DELIMITER] \<and>
          filter is_async ev = [async_write (response @ [DATA_DELIMITER])] \<and>
          mainClose \<notin> set ev \<and> filter is_socket_op ev = []"
    using dispatch_step [OF assms(1-3) d h, of transfered] by blast
  have later: "terminal s' \<Longrightarrow> (\<forall>env' error n. \<exists>s'' ev'.
      operator_call env' s' error n = Some (s'', ev') \<and> terminal s'' \<and>
      filter is_async ev' = [] \<and> filter is_dispatch ev' = [])"
    using terminal_stays by blast
  have "if failed err \<or> response = []
        then terminal s' \<and> filter is_async ev = [] \<and>
             (closeConnection_connected s \<longrightarrow> mainClose \<in> set ev) \<and>
             (sock_is_open s \<longrightarrow> sock_close \<in> set ev) \<and>
             (\<forall>env' error n. \<exists>s'' ev'.
                 operator_call env' s' error n = Some (s'', ev') \<and> terminal s'' \<and>
                 filter is_async ev' = [] \<and> filter is_dispatch ev' = [])
        else coro s' = AwaitingWriteComplete \<and>
             sock_is_open s' = sock_is_open s \<and>
             closeConnection_connected s' = closeConnection_connected s \<and>
             res s' = response @ [DATA_DELIMITER] \<and>
             filter is_async ev = [async_write (response @ [DATA_DELIMITER])] \<and>
             mainClose \<notin> set ev \<and> filter is_socket_op ev = []"
  proof (cases "failed err \<or> response = []")
    case True
    with st(3) later show ?thesis by simp
  next
    case False
    with st(3) show ?thesis by simp
  qed
  with h st(1,2) show ?thesis by blast
qed

theorem fatal_dispatch_outcomes_witness:
  "operator_call
     (example_environment\<lparr>getHandlerFactory :=
        Some \<lparr>getRequestHandler =
          Some (\<lambda>request response. ((other_error ''boom'', ''partial''), []))\<rparr>\<rparr>)
     \<lparr>coro = AwaitingFrame, sock_is_open = True, closeConnection_connected = True,
      req = [CHR ''A'', DATA_DELIMITER], res = []\<rparr> success 2 =
   Some (\<lparr>coro = Complete, sock_is_open = False, closeConnection_connected = False,
           req = [CHR ''A'', DATA_DELIMITER], res = ''partial''\<rparr>,
         [Log (LOG INFO ''readed: %1.3fKb'' [ArgBytes_div_1024 2]),
          Log (LOG INFO ''in buffer: %1.3fKb'' [ArgBytes_div_1024 2]),
          Log (LOG DEBUG ''handle request'' []),
          handler_handle ''A'' [],
          Log (LOG ERROR ''boom'' []),
          Log (LOG DEBUG ''try close session'' []),
          sock_cancel, sock_shutdown, sock_close, mainClose])"
  using fatal_dispatch_outcomes [of
      "\<lparr>coro = AwaitingFrame, sock_is_open = True, closeConnection_connected = True,
        req = [CHR ''A'', DATA_DELIMITER], res = []\<rparr>"
      "example_environment\<lparr>getHandlerFactory :=
        Some \<lparr>getRequestHandler =
          Some (\<lambda>request response. ((other_error ''boom'', ''partial''), []))\<rparr>\<rparr>"
      "\<lparr>getRequestHandler =
          Some (\<lambda>request response. ((other_error ''boom'', ''partial''), []))\<rparr>"
      "\<lambda>request response. ((other_error ''boom'', ''partial''), [])" 2]
  by (simp add: operator_call_def request_handling_def example_environment_def
      sregex_tokens_def DATA_DELIMITER_def close_and_break_def close_def
      log_error_if_failed_def)

section \<open>The request handler's responses\<close>

text \<open>
  Claim C5. For every frame and every output string, \<^verbatim>\<open>handle\<close> returns the success
  error code, on each of its three paths, and the failure is inside the serialised
  response: the output is the serialisation of a response object whose status is the
  failure code with the parse error text when the request object cannot be constructed,
  the failure code with the message naming the type when the type has no tokenizer, and
  otherwise the failure code with the status text exactly when the tokenizer returns a
  status text that is not empty (the success code with an empty message when it is).
\<close>

theorem handle_returns_success:
  "fst (fst (handle c request response)) = success \<and>
   \<not> failed (fst (fst (handle c request response))) \<and>
   snd (fst (handle c request response)) =
     dump c
       (case RequestObject_ctor c request of
          Inl what \<Rightarrow> ResponseObject 0 0 [] [] FAILURE_CODE what []
        | Inr requestObject \<Rightarrow>
            (case getTokenizer c (buf_type requestObject) of
               None \<Rightarrow>
                 ResponseObject (msg_num requestObject) (id' requestObject)
                   (buf_type requestObject) (buf_name requestObject) FAILURE_CODE
                   (''couldn't get tokenizer for buffer type: '' @ buf_type requestObject)
                   []
             | Some tokenizer \<Rightarrow>
                 ResponseObject (msg_num requestObject) (id' requestObject)
                   (buf_type requestObject) (buf_name requestObject)
                   (if fst (tokenizer (buf_name requestObject) (buf_body requestObject)
                              (additional_info requestObject) []) = []
                    then SUCCESS_CODE else FAILURE_CODE)
                   (fst (tokenizer (buf_name requestObject) (buf_body requestObject)
                           (additional_info requestObject) []))
                   (snd (tokenizer (buf_name requestObject) (buf_body requestObject)
                           (additional_info requestObject) []))))
       response"
  by (simp add: handle_def split: sum.splits option.splits prod.splits)

theorem handle_returns_success_witness:
  "fst (handle example_collaborators [] []) = (success, '':parse error: empty input'') \<and>
   fst (handle example_collaborators ''xyz'' []) =
     (success, ''xyz:couldn't get tokenizer for buffer type: xyz'') \<and>
   fst (handle example_collaborators ''bad'' []) = (success, ''bad:unexpected token'') \<and>
   fst (handle example_collaborators ''cpp'' []) = (success, ''cpp:'')"
  using handle_returns_success [of example_collaborators "[]" "[]"]
    handle_returns_success [of example_collaborators "''xyz''" "[]"]
    handle_returns_success [of example_collaborators "''bad''" "[]"]
    handle_returns_success [of example_collaborators "''cpp''" "[]"]
  by (simp add: handle_def example_collaborators_def example_tokenizer_def)

text \<open>
  Claim C6. When the construction of the request object fails with the error text
  \<open>what\<close>, the response that is serialised has sequence number 0, identifier 0, empty
  type, empty name, the failure code, the message \<open>what\<close> and no results, and the
  returned error code is success. The text is not empty, the parser's errors being
  descriptive.
\<close>

theorem parse_failure_response:
  assumes "descriptive_errors (RequestObject_ctor c)"
    and "RequestObject_ctor c request = Inl what"
  shows "fst (handle c request response) =
           (success, dump c (ResponseObject 0 0 [] [] FAILURE_CODE what []) response) \<and>
         what \<noteq> []"
  using assms by (auto simp: handle_def descriptive_errors_def)

theorem parse_failure_response_witness:
  "descriptive_errors (RequestObject_ctor example_collaborators) \<and>
   RequestObject_ctor example_collaborators [] = Inl ''parse error: empty input'' \<and>
   fst (handle example_collaborators [] []) = (success, '':parse error: empty input'')"
proof -
  have d: "descriptive_errors (RequestObject_ctor example_collaborators)"
    by (simp add: descriptive_errors_def example_collaborators_def)
  have p: "RequestObject_ctor example_collaborators [] = Inl ''parse error: empty input''"
    by (simp add: example_collaborators_def)
  from parse_failure_response [OF d p, of "[]"] d p show ?thesis
    by (simp add: example_collaborators_def)
qed

text \<open>
  Claim C7. When the request object is constructed and no tokenizer exists for its type,
  the response echoes the request's number, identifier, type and name, has the failure
  code, the message \<^verbatim>\<open>couldn't get tokenizer for buffer type: \<close> followed by the type, and
  no results; the error code is success. A session that dispatches such a frame to this
  handler is not closed by it: if the serialised response is not empty, the session
  starts the write of it and performs no socket operation and no notification.
\<close>

theorem unknown_type_response:
  assumes "RequestObject_ctor c request = Inr requestObject"
    and "getTokenizer c (buf_type requestObject) = None"
  shows "fst (handle c request response) =
           (success,
            dump c (ResponseObject (msg_num requestObject) (id' requestObject)
                      (buf_type requestObject) (buf_name requestObject) FAILURE_CODE
                      (''couldn't get tokenizer for buffer type: '' @ buf_type requestObject)
                      [])
              response) \<and>
         (\<forall>env s factory n.
            coro s = AwaitingFrame \<and> getHandlerFactory env = Some factory \<and>
            getRequestHandler factory = Some (handle c) \<and>
            req s = request @ [DATA_DELIMITER] \<and> delimiter_free request \<and>
            dump c (ResponseObject (msg_num requestObject) (id' requestObject)
                      (buf_type requestObject) (buf_name requestObject) FAILURE_CODE
                      (''couldn't get tokenizer for buffer type: '' @ buf_type requestObject)
                      [])
              (res s) \<noteq> [] \<longrightarrow>
            (\<exists>s' ev. operator_call env s success n = Some (s', ev) \<and>
               coro s' = AwaitingWriteComplete \<and>
               sock_is_open s' = sock_is_open s \<and>
               closeConnection_connected s' = closeConnection_connected s \<and>
               mainClose \<notin> set ev \<and> filter is_socket_op ev = [] \<and>
               filter is_async ev =
                 [async_write
                    (dump c (ResponseObject (msg_num requestObject) (id' requestObject)
                               (buf_type requestObject) (buf_name requestObject)
                               FAILURE_CODE
                               (''couldn't get tokenizer for buffer type: '' @
                                  buf_type requestObject)
                               [])
                       (res s) @ [DATA_DELIMITER])]))"
proof -
  let ?r = "ResponseObject (msg_num requestObject) (id' requestObject)
      (buf_type requestObject) (buf_name requestObject) FAILURE_CODE
      (''couldn't get tokenizer for buffer type: '' @ buf_type requestObject) []"
  have h: "\<And>out. fst (handle c request out) = (success, dump c ?r out)"
    using assms by (simp add: handle_def)
  have "\<exists>s' ev. operator_call env s success n = Some (s', ev) \<and>
               coro s' = AwaitingWriteComplete \<and>
               sock_is_open s' = sock_is_open s \<and>
               closeConnection_connected s' = closeConnection_connected s \<and>
               mainClose \<notin> set ev \<and> filter is_socket_op ev = [] \<and>
               filter is_async ev = [async_write (dump c ?r (res s) @ [DATA_DELIMITER])]"
    if a: "coro s = AwaitingFrame" "getHandlerFactory env = Some factory"
      "getRequestHandler factory = Some (handle c)"
      "req s = request @ [DATA_DELIMITER]" "delimiter_free request"
      "dump c ?r (res s) \<noteq> []"
    for env s factory n
  proof -
    have d: "req s = join_frames ([] @ [request])"
      "\<forall>f \<in> set ([] @ [request]). delimiter_free f"
      using a(4,5) by (simp_all add: join_frames_Cons join_frames_Nil)
    obtain hlog where hl: "handle c request (res s) = ((success, dump c ?r (res s)), hlog)"
      using h [of "res s"] by (cases "handle c request (res s)") auto
    from dispatch_step [OF a(1-3) d hl, of n] a(6) show ?thesis
      by auto
  qed
  with h show ?thesis by blast
qed

theorem unknown_type_response_witness:
  "fst (handle example_collaborators ''xyz'' []) =
     (success, ''xyz:couldn't get tokenizer for buffer type: xyz'') \<and>
   map_option (filter is_async \<circ> snd)
     (operator_call
        (example_environment\<lparr>getHandlerFactory :=
           Some \<lparr>getRequestHandler = Some (handle example_collaborators)\<rparr>\<rparr>)
        \<lparr>coro = AwaitingFrame, sock_is_open = True, closeConnection_connected = True,
         req = ''xyz'' @ [DATA_DELIMITER], res = []\<rparr> success 4) =
   Some [async_write (''xyz:couldn't get tokenizer for buffer type: xyz'' @ [DATA_DELIMITER])]"
  using unknown_type_response [of example_collaborators "''xyz''"
      "\<lparr>msg_num = 7, id' = 42, buf_type = ''xyz'', buf_name = ''main.cpp'',
        buf_body = ''xyz'', additional_info = []\<rparr>" "[]"]
  by (simp add: handle_def example_collaborators_def operator_call_def
      request_handling_def example_environment_def sregex_tokens_def DATA_DELIMITER_def)

text \<open>
  Claim C8. When the request object is constructed and a tokenizer exists for its type,
  the response echoes the request's number, identifier, type and name and holds the
  tokens that the tokenizer produced, in their order, whatever the status; an empty
  status text gives the success code and an empty message, any other status text the
  failure code and that text as the message.
\<close>

theorem processor_status_mapping:
  assumes "RequestObject_ctor c request = Inr requestObject"
    and "getTokenizer c (buf_type requestObject) = Some tokenizer"
    and "tokenizer (buf_name requestObject) (buf_body requestObject)
           (additional_info requestObject) [] = (status, produced)"
  shows "\<exists>r. fst (handle c request response) = (success, dump c r response) \<and>
           sequence_number r = msg_num requestObject \<and>
           response_id r = id' requestObject \<and>
           declared_type r = buf_type requestObject \<and>
           response_name r = buf_name requestObject \<and>
           result_list r = produced \<and>
           (if status = []
            then return_code r = SUCCESS_CODE \<and> error_message r = []
            else return_code r = FAILURE_CODE \<and> error_message r = status)"
proof -
  let ?r = "ResponseObject (msg_num requestObject) (id' requestObject)
      (buf_type requestObject) (buf_name requestObject)
      (if status = [] then SUCCESS_CODE else FAILURE_CODE) status produced"
  have "fst (handle c request response) = (success, dump c ?r response)"
    using assms by (simp add: handle_def)
  then show ?thesis
    by (intro exI [of _ ?r]) simp
qed

theorem processor_status_mapping_witness:
  "fst (handle example_collaborators ''cpp'' []) = (success, ''cpp:'') \<and>
   fst (handle example_collaborators ''bad'' []) = (success, ''bad:unexpected token'')"
  using processor_status_mapping [of example_collaborators "''cpp''"
      "\<lparr>msg_num = 7, id' = 42, buf_type = ''cpp'', buf_name = ''main.cpp'',
        buf_body = ''cpp'', additional_info = []\<rparr>" example_tokenizer "[]" "[1, 2, 3]" "[]"]
  by (simp add: handle_def example_collaborators_def example_tokenizer_def)

section \<open>Closing a session\<close>

text \<open>
  Claim C9. Calling \<^verbatim>\<open>close\<close> twice in a row on a session whose slot is connected (as
  the constructor leaves it) emits the owner's close signal exactly once, in the first
  call. The second call finds the socket closed, performs no socket operation, emits
  nothing, writes one debug line and leaves the session as it was; it returns like any
  other call.
\<close>

theorem close_twice_notifies_once:
  assumes "closeConnection_connected s"
  shows "case close env1 s of (s1, ev1) \<Rightarrow>
           (case close env2 s1 of (s2, ev2) \<Rightarrow>
              count_list ev1 mainClose = 1 \<and> count_list (ev1 @ ev2) mainClose = 1 \<and>
              ev2 = [Log (LOG DEBUG ''try close session'' [])] \<and>
              filter is_socket_op ev2 = [] \<and> mainClose \<notin> set ev2 \<and>
              \<not> sock_is_open s1 \<and> s2 = s1)"
  using assms by (simp add: close_def log_error_if_failed_def)

theorem close_twice_notifies_once_witness:
  "closeConnection_connected (SessionImp_ctor True) \<and>
   snd (close example_environment (SessionImp_ctor True)) =
     [Log (LOG DEBUG ''try close session'' []), sock_cancel, sock_shutdown, sock_close,
      mainClose] \<and>
   snd (close example_environment (fst (close example_environment (SessionImp_ctor True)))) =
     [Log (LOG DEBUG ''try close session'' [])]"
  using close_twice_notifies_once [of "SessionImp_ctor True" example_environment example_environment]
  by (simp add: SessionImp_ctor_def close_def example_environment_def
      log_error_if_failed_def)

section \<open>No handler\<close>

text \<open>
  Claim C10. When the session is resumed after a read and the handler factory is the
  null pointer, or the factory's handler is, the session closes: no frame is handed to
  a handler, no read or write is started, the socket is closed, the owner is notified if
  still connected, the coroutine is complete, and no later call starts an asynchronous
  operation or a dispatch.
\<close>

theorem missing_handler_closes:
  assumes "coro s = AwaitingFrame"
    and "getHandlerFactory env = None \<or>
         (\<exists>factory. getHandlerFactory env = Some factory \<and> getRequestHandler factory = None)"
  shows "\<exists>s' ev. operator_call env s success transfered = Some (s', ev) \<and>
           terminal s' \<and> filter is_dispatch ev = [] \<and> filter is_async ev = [] \<and>
           (closeConnection_connected s \<longrightarrow> mainClose \<in> set ev) \<and>
           (sock_is_open s \<longrightarrow> sock_close \<in> set ev) \<and>
           req s' = req s \<and> res s' = res s \<and>
           (\<forall>env' error n. \<exists>s'' ev'. operator_call env' s' error n = Some (s'', ev') \<and>
              terminal s'' \<and> filter is_async ev' = [] \<and> filter is_dispatch ev' = [])"
proof -
  obtain logged where rh: "request_handling env s transfered = Some (close_and_break env s logged)"
    and l: "filter is_dispatch logged = []" "filter is_async logged = []"
    using assms(2) by (auto simp: request_handling_def)
  obtain s' ev where cb: "close_and_break env s logged = (s', ev)"
    by (cases "close_and_break env s logged")
  note f = close_and_break_facts [OF cb]
  have "operator_call env s success transfered = Some (s', ev)"
    using assms(1) rh cb by (simp add: operator_call_def)
  moreover have "\<forall>env' error n. \<exists>s'' ev'. operator_call env' s' error n = Some (s'', ev') \<and>
      terminal s'' \<and> filter is_async ev' = [] \<and> filter is_dispatch ev' = []"
    using terminal_stays [OF f(1)] by blast
  ultimately show ?thesis using f l by auto
qed

theorem missing_handler_closes_witness:
  "operator_call (example_environment\<lparr>getHandlerFactory := None\<rparr>)
     \<lparr>coro = AwaitingFrame, sock_is_open = True, closeConnection_connected = True,
      req = [CHR ''A'', DATA_DELIMITER], res = []\<rparr> success 2 =
   Some (\<lparr>coro = Complete, sock_is_open = False, closeConnection_connected = False,
           req = [CHR ''A'', DATA_DELIMITER], res = []\<rparr>,
         [Log (LOG INFO ''readed: %1.3fKb'' [ArgBytes_div_1024 2]),
          Log (LOG INFO ''in buffer: %1.3fKb'' [ArgBytes_div_1024 2]),
          Log (LOG ERROR ''handler factory not set'' []),
          Log (LOG DEBUG ''try close session'' []),
          sock_cancel, sock_shutdown, sock_close, mainClose])"
  using missing_handler_closes [of
      "\<lparr>coro = AwaitingFrame, sock_is_open = True, closeConnection_connected = True,
        req = [CHR ''A'', DATA_DELIMITER], res = []\<rparr>"
      "example_environment\<lparr>getHandlerFactory := None\<rparr>" 2]
  by (simp add: operator_call_def request_handling_def close_and_break_def close_def
      example_environment_def log_error_if_failed_def)

end
